theory Spec2Isabelle
  imports
    Main
    "HOL-Library.AList"
    "HOL-Library.Multiset"
    "HOL-Library.Char_ord"
    "HOL-Library.List_Lexorder"
    "HOL-Library.Product_Lexorder"
begin

section \<open>Text and numbers\<close>

text \<open>
  Python text and Redis byte strings are both modelled by Isabelle strings: a character is
  a code point (a byte) below 256. \<open>str(n)\<close> of a non-negative integer, as the f-string
  \<open>f'record_{idx}'\<close> formats it, is the decimal numeral without leading zeros.
\<close>

definition digit_char :: "nat \<Rightarrow> char" where
  "digit_char d = char_of (48 + d)"

definition is_digit :: "char \<Rightarrow> bool" where
  "is_digit c \<longleftrightarrow> 48 \<le> (of_char c :: nat) \<and> (of_char c :: nat) \<le> 57"

definition digit_val :: "char \<Rightarrow> nat" where
  "digit_val c = of_char c - 48"

fun str_nat :: "nat \<Rightarrow> string" where
  "str_nat n = (if n < 10 then [digit_char n] else str_nat (n div 10) @ [digit_char (n mod 10)])"

declare str_nat.simps [simp del]

definition str_int :: "int \<Rightarrow> string" where
  "str_int i = (if i < 0 then CHR ''-'' # str_nat (nat (- i)) else str_nat (nat i))"

definition nat_of_digits :: "string \<Rightarrow> nat" where
  "nat_of_digits ds = foldl (\<lambda>a c. 10 * a + digit_val c) 0 ds"

text \<open>The key of the \<open>idx\<close>-th record of a load: \<open>f'record_{idx}'\<close>.\<close>

definition record_key :: "nat \<Rightarrow> string" where
  "record_key idx = ''record_'' @ str_nat idx"










section \<open>Records and their JSON text\<close>

text \<open>
  A record is one row of the CSV file as \<open>df.to_dict(orient='records')\<close> hands it over: a
  Python dict from column name to cell value, kept as an association list in insertion
  order. Cell values are \<open>None\<close>, booleans, integers and text. Floating-point cells
  (among them the NaN that pandas puts into an empty cell) are outside this embedding.
\<close>

datatype scalar = JNull | JBool bool | JNum int | JStr string

type_synonym pyrecord = "(string \<times> scalar) list"

text \<open>
  \<open>json.dumps(record)\<close> with its default settings: the items in dict order, separated by
  \<open>", "\<close>, a key and its value separated by \<open>": "\<close>, and every string written by
  \<open>encode_basestring_ascii\<close>: the characters from space to \<open>~\<close> as they are, except the
  double quote and the backslash, the usual short escapes, and \<open>\u00XX\<close> (lower-case
  hexadecimal) for every other character.

  \<open>json.loads\<close> follows the standard decoder: \<open>scanstring\<close> reads a string body up to the
  closing quote (strict mode: a raw control character is an error), \<open>scan_once\<close> reads one
  value, \<open>JSONObject\<close> reads the members of an object and builds the dict, a repeated key
  keeping its first position and its last value. The decoder of this model reads objects
  whose values are \<open>null\<close>, \<open>true\<close>, \<open>false\<close>, integers and strings of code points
  below 256. Every other text is reported as \<open>JSONDecodeError\<close>; for nested values, floats
  and larger code points this reports a failure where Python would return a value, and no
  statement below depends on it.
\<close>

definition hex_digit :: "nat \<Rightarrow> char" where
  "hex_digit d = (if d < 10 then char_of (48 + d) else char_of (87 + d))"

definition hex_val :: "char \<Rightarrow> nat option" where
  "hex_val c =
     (let n = (of_char c :: nat)
      in if 48 \<le> n \<and> n \<le> 57 then Some (n - 48)
         else if 97 \<le> n \<and> n \<le> 102 then Some (n - 87)
         else if 65 \<le> n \<and> n \<le> 70 then Some (n - 55)
         else None)"

definition escape_char :: "char \<Rightarrow> string" where
  "escape_char c =
     (if c = CHR 0x5C then [CHR 0x5C, CHR 0x5C]
      else if c = CHR 0x22 then [CHR 0x5C, CHR 0x22]
      else if c = CHR 0x08 then [CHR 0x5C, CHR ''b'']
      else if c = CHR 0x0C then [CHR 0x5C, CHR ''f'']
      else if c = CHR 0x0A then [CHR 0x5C, CHR ''n'']
      else if c = CHR 0x0D then [CHR 0x5C, CHR ''r'']
      else if c = CHR 0x09 then [CHR 0x5C, CHR ''t'']
      else if 32 \<le> (of_char c :: nat) \<and> (of_char c :: nat) \<le> 126 then [c]
      else [CHR 0x5C, CHR ''u'', CHR ''0'', CHR ''0'',
            hex_digit (of_char c div 16), hex_digit (of_char c mod 16)])"

definition encode_basestring_ascii :: "string \<Rightarrow> string" where
  "encode_basestring_ascii s = CHR 0x22 # concat (map escape_char s) @ [CHR 0x22]"

definition backslash :: "char \<Rightarrow> char option" where
  "backslash e =
     (if e = CHR 0x22 then Some (CHR 0x22)
      else if e = CHR 0x5C then Some (CHR 0x5C)
      else if e = CHR ''/'' then Some (CHR ''/'')
      else if e = CHR ''b'' then Some (CHR 0x08)
      else if e = CHR ''f'' then Some (CHR 0x0C)
      else if e = CHR ''n'' then Some (CHR 0x0A)
      else if e = CHR ''r'' then Some (CHR 0x0D)
      else if e = CHR ''t'' then Some (CHR 0x09)
      else None)"

definition decode_uXXXX :: "string \<Rightarrow> nat option" where
  "decode_uXXXX esc =
     (case map hex_val esc of
        [Some a, Some b, Some c, Some d] \<Rightarrow> Some (((a * 16 + b) * 16 + c) * 16 + d)
      | _ \<Rightarrow> None)"

fun scanstring :: "string \<Rightarrow> (string \<times> string) option" where
  "scanstring [] = None"
| "scanstring (c # cs) =
     (if c = CHR 0x22 then Some ([], cs)
      else if c = CHR 0x5C then
        (case cs of
           [] \<Rightarrow> None
         | e # es \<Rightarrow>
             if e = CHR ''u'' then
               (case decode_uXXXX (take 4 es) of
                  None \<Rightarrow> None
                | Some uni \<Rightarrow>
                    if uni < 256
                    then map_option (\<lambda>(s, r). (char_of uni # s, r)) (scanstring (drop 4 es))
                    else None)
             else
               (case backslash e of
                  None \<Rightarrow> None
                | Some ch \<Rightarrow> map_option (\<lambda>(s, r). (ch # s, r)) (scanstring es)))
      else if (of_char c :: nat) < 32 then None
      else map_option (\<lambda>(s, r). (c # s, r)) (scanstring cs))"







definition dumps_scalar :: "scalar \<Rightarrow> string" where
  "dumps_scalar v =
     (case v of
        JStr s \<Rightarrow> encode_basestring_ascii s
      | JNull \<Rightarrow> ''null''
      | JBool True \<Rightarrow> ''true''
      | JBool False \<Rightarrow> ''false''
      | JNum i \<Rightarrow> str_int i)"

definition dumps_item :: "string \<times> scalar \<Rightarrow> string" where
  "dumps_item kv = encode_basestring_ascii (fst kv) @ '': '' @ dumps_scalar (snd kv)"

fun join :: "string \<Rightarrow> string list \<Rightarrow> string" where
  "join sep [] = []"
| "join sep [x] = x"
| "join sep (x # y # ys) = x @ sep @ join sep (y # ys)"

definition json_dumps :: "pyrecord \<Rightarrow> string" where
  "json_dumps r = ''{'' @ join '', '' (map dumps_item r) @ ''}''"

definition is_ws :: "char \<Rightarrow> bool" where
  "is_ws c \<longleftrightarrow> c = CHR '' '' \<or> c = CHR 0x09 \<or> c = CHR 0x0A \<or> c = CHR 0x0D"

definition skip_ws :: "string \<Rightarrow> string" where
  "skip_ws s = dropWhile is_ws s"

definition match_integer :: "string \<Rightarrow> (int \<times> string) option" where
  "match_integer s =
     (let neg = (case s of [] \<Rightarrow> False | c # _ \<Rightarrow> c = CHR ''-'');
          t = (if neg then tl s else s)
      in case t of
           [] \<Rightarrow> None
         | d # ds \<Rightarrow>
             if d = CHR ''0'' then Some (0, ds)
             else if is_digit d then
               Some ((if neg then - int (nat_of_digits (takeWhile is_digit t))
                      else int (nat_of_digits (takeWhile is_digit t))),
                     dropWhile is_digit t)
             else None)"

definition is_float_tail :: "string \<Rightarrow> bool" where
  "is_float_tail r =
     (case r of
        [] \<Rightarrow> False
      | c # cs \<Rightarrow>
          if c = CHR ''.'' then (case cs of [] \<Rightarrow> False | d # _ \<Rightarrow> is_digit d)
          else if c = CHR ''e'' \<or> c = CHR ''E'' then
            (case cs of
               [] \<Rightarrow> False
             | d # ds \<Rightarrow>
                 if d = CHR ''+'' \<or> d = CHR ''-''
                 then (case ds of [] \<Rightarrow> False | x # _ \<Rightarrow> is_digit x)
                 else is_digit d)
          else False)"

definition scan_once :: "string \<Rightarrow> (scalar \<times> string) option" where
  "scan_once s =
     (case s of
        [] \<Rightarrow> None
      | c # cs \<Rightarrow>
          if c = CHR 0x22 then map_option (\<lambda>(t, r). (JStr t, r)) (scanstring cs)
          else if c = CHR ''n'' \<and> take 4 s = ''null'' then Some (JNull, drop 4 s)
          else if c = CHR ''t'' \<and> take 4 s = ''true'' then Some (JBool True, drop 4 s)
          else if c = CHR ''f'' \<and> take 5 s = ''false'' then Some (JBool False, drop 5 s)
          else
            (case match_integer s of
               None \<Rightarrow> None
             | Some (n, r) \<Rightarrow> if is_float_tail r then None else Some (JNum n, r)))"

definition expect_colon :: "string \<Rightarrow> string option" where
  "expect_colon s = (case skip_ws s of [] \<Rightarrow> None | c # cs \<Rightarrow> if c = CHR '':'' then Some cs else None)"

lemma scanstring_shorter: "scanstring s = Some (t, r) \<Longrightarrow> length r < length s"
proof (induction s arbitrary: t r rule: scanstring.induct)
  case 1
  then show ?case by simp
next
  case (2 c cs)
  show ?case
    using "2.prems" "2.IH"
    apply (simp split: if_splits list.splits option.splits)
    apply (force)+
    done
qed


lemma skip_ws_length: "length (skip_ws s) \<le> length s"
  by (simp add: skip_ws_def length_dropWhile_le)

lemma expect_colon_shorter: "expect_colon s = Some r \<Longrightarrow> length r < length s"
proof -
  assume "expect_colon s = Some r"
  then have "skip_ws s = CHR '':'' # r"
    by (auto simp: expect_colon_def split: list.splits if_splits)
  with skip_ws_length [of s] show ?thesis by simp
qed

lemma match_integer_shorter: "match_integer s = Some (n, r) \<Longrightarrow> length r < length s"
proof -
  assume a: "match_integer s = Some (n, r)"
  have dw: "\<And>t. length (dropWhile is_digit t) \<le> length t"
    by (simp add: length_dropWhile_le)
  show ?thesis
  proof (cases s)
    case Nil
    with a show ?thesis by (simp add: match_integer_def)
  next
    case (Cons c cs)
    show ?thesis
    proof (cases "c = CHR ''-''")
      case True
      with a Cons dw [of "tl cs"] show ?thesis
        by (cases cs) (auto simp: match_integer_def Let_def split: if_splits)
    next
      case False
      with a Cons dw [of cs] show ?thesis
        by (auto simp: match_integer_def Let_def split: if_splits)
    qed
  qed
qed

lemma scan_once_shorter: "scan_once s = Some (v, r) \<Longrightarrow> length r < length s"
proof (cases s)
  case Nil
  assume "scan_once s = Some (v, r)"
  with Nil show ?thesis by (simp add: scan_once_def)
next
  case (Cons c cs)
  assume a: "scan_once s = Some (v, r)"
  show ?thesis
  proof (cases "c = CHR 0x22")
    case True
    with a Cons obtain t where "scanstring cs = Some (t, r)"
      by (auto simp: scan_once_def)
    from scanstring_shorter [OF this] Cons show ?thesis by simp
  next
    case False
    with a Cons show ?thesis
      by (auto simp: scan_once_def split: if_splits option.splits dest: match_integer_shorter)
  qed
qed

function parse_members :: "pyrecord \<Rightarrow> string \<Rightarrow> (pyrecord \<times> string) option" where
  "parse_members pairs s =
     (case scanstring s of
        None \<Rightarrow> None
      | Some (key, s1) \<Rightarrow>
          (case expect_colon s1 of
             None \<Rightarrow> None
           | Some s2 \<Rightarrow>
               (case scan_once (skip_ws s2) of
                  None \<Rightarrow> None
                | Some (v, s3) \<Rightarrow>
                    (case skip_ws s3 of
                       [] \<Rightarrow> None
                     | c # s4 \<Rightarrow>
                         if c = CHR ''}'' then Some (pairs @ [(key, v)], s4)
                         else if c = CHR '','' then
                           (case skip_ws s4 of
                              [] \<Rightarrow> None
                            | q # s5 \<Rightarrow>
                                if q = CHR 0x22 then parse_members (pairs @ [(key, v)]) s5
                                else None)
                         else None))))"
  by pat_completeness auto
termination
proof (relation "measure (\<lambda>(pairs, s). length s)")
  show "wf (measure (\<lambda>(pairs, s). length s))" by simp
next
  fix pairs :: pyrecord and s x2 key s1 s2 x2a v s3 c s4 q s5
  assume "scanstring s = Some x2" "(key, s1) = x2" "expect_colon s1 = Some s2"
    "scan_once (skip_ws s2) = Some x2a" "(v, s3) = x2a" "skip_ws s3 = c # s4"
    "skip_ws s4 = q # s5"
  then have "length s1 < length s" "length s2 < length s1" "length s3 < length (skip_ws s2)"
    "length s4 < length (skip_ws s3)" "length s5 < length (skip_ws s4)"
    by (auto dest: scanstring_shorter expect_colon_shorter scan_once_shorter)
  with skip_ws_length [of s2] skip_ws_length [of s3] skip_ws_length [of s4]
  show "((pairs @ [(key, v)], s5), (pairs, s)) \<in> measure (\<lambda>(pairs, s). length s)"
    by simp
qed

declare parse_members.simps [simp del]

definition JSONObject :: "string \<Rightarrow> (pyrecord \<times> string) option" where
  "JSONObject s =
     (case skip_ws s of
        [] \<Rightarrow> None
      | c # cs \<Rightarrow>
          if c = CHR ''}'' then Some ([], cs)
          else if c = CHR 0x22 then
            map_option (\<lambda>(pairs, r). (foldl (\<lambda>d (k, v). AList.update k v d) [] pairs, r))
              (parse_members [] cs)
          else None)"

datatype exn = RedisError | JSONDecodeError | UnicodeDecodeError | FileNotFoundError | KeyError string

definition json_loads :: "string \<Rightarrow> exn + pyrecord" where
  "json_loads s =
     (case skip_ws s of
        [] \<Rightarrow> Inl JSONDecodeError
      | c # cs \<Rightarrow>
          if c = CHR ''{'' then
            (case JSONObject cs of
               None \<Rightarrow> Inl JSONDecodeError
             | Some (r, rest) \<Rightarrow> if skip_ws rest = [] then Inr r else Inl JSONDecodeError)
          else Inl JSONDecodeError)"






















section \<open>The Redis store\<close>

text \<open>
  The store is the list of the items it holds, each key once. \<open>KEYS\<close> lists the keys in an
  order the store chooses: the parameter \<open>ord\<close> is that choice, and \<open>enumerates ord\<close> says
  that it lists exactly the keys given, each as often as given. \<open>SET\<close> replaces the value of
  a key or adds the item, \<open>GET\<close> looks a key up, \<open>FLUSHALL\<close> removes every item.

  A store call can fail with a \<open>RedisError\<close> (the server cannot be reached, the connection
  drops). The calls of one gateway operation are numbered from 0 in the order the operation
  makes them, and the parameter \<open>fault\<close> names the call that fails: \<open>Some i\<close> for call
  \<open>i\<close>, \<open>None\<close> when the store answers every call. A failed call changes nothing.

  \<open>redis_data.decode('utf-8')\<close> is the identity on ASCII bytes, which is all
  \<open>json.dumps\<close> writes. Bytes from 128 on would need multi-byte decoding into code points
  that the strings of this model may not hold; the model reports them as
  \<open>UnicodeDecodeError\<close>.
\<close>

type_synonym store = "(string \<times> string) list"

type_synonym key_order = "string list \<Rightarrow> string list"

definition enumerates :: "key_order \<Rightarrow> bool" where
  "enumerates ord \<longleftrightarrow> (\<forall>ks. mset (ord ks) = mset ks)"

type_synonym fault = "nat option"

definition redis_flushall :: "fault \<Rightarrow> nat \<Rightarrow> store \<Rightarrow> exn + store" where
  "redis_flushall fault i st = (if fault = Some i then Inl RedisError else Inr [])"

definition redis_set :: "fault \<Rightarrow> nat \<Rightarrow> string \<Rightarrow> string \<Rightarrow> store \<Rightarrow> exn + store" where
  "redis_set fault i k v st = (if fault = Some i then Inl RedisError else Inr (AList.update k v st))"

definition redis_get :: "fault \<Rightarrow> nat \<Rightarrow> string \<Rightarrow> store \<Rightarrow> exn + string option" where
  "redis_get fault i k st = (if fault = Some i then Inl RedisError else Inr (map_of st k))"

definition redis_keys :: "key_order \<Rightarrow> fault \<Rightarrow> nat \<Rightarrow> store \<Rightarrow> exn + string list" where
  "redis_keys ord fault i st = (if fault = Some i then Inl RedisError else Inr (ord (map fst st)))"

definition utf8_decode :: "string \<Rightarrow> exn + string" where
  "utf8_decode b = (if list_all (\<lambda>c. (of_char c :: nat) < 128) b then Inr b else Inl UnicodeDecodeError)"

section \<open>pandas\<close>

text \<open>
  \<open>pd.read_csv(csv_path)\<close> followed by \<open>df.to_dict(orient='records')\<close> either raises (the
  file is missing or does not parse) or yields the rows as a list of records. The CSV file
  is represented by what these two calls make of it.

  A frame \<open>pd.DataFrame(data)\<close> is represented by the list of its rows, each row the dict
  it was built from; a cell whose row has no such key is missing (NaN). The columns of the
  frame are the keys that occur in some row, and \<open>df[col]\<close> raises \<open>KeyError\<close> for any
  other name. The conversions pandas applies to the cells of a column (integers stored as
  floats next to a missing cell) are not modelled.

  \<open>pd.Categorical(column).cat.codes\<close>: the categories are the distinct values of the
  column that are not missing, in sorted order (numbers before text, as pandas sorts a
  column of mixed values; \<open>True\<close> and \<open>False\<close> count as 1 and 0); the code of a cell is the
  position of its value among the categories, and \<open>-1\<close> for a missing value or \<open>None\<close>.
\<close>

datatype csv_source = Unreadable | Parsed "pyrecord list"

definition read_csv_records :: "csv_source \<Rightarrow> exn + pyrecord list" where
  "read_csv_records csv = (case csv of Unreadable \<Rightarrow> Inl FileNotFoundError | Parsed data \<Rightarrow> Inr data)"

datatype dataframe = DataFrame "pyrecord list"

fun frame_rows :: "dataframe \<Rightarrow> pyrecord list" where
  "frame_rows (DataFrame rows) = rows"

definition frame_columns :: "dataframe \<Rightarrow> string list" where
  "frame_columns df = remdups (concat (map (map fst) (frame_rows df)))"

definition get_column :: "dataframe \<Rightarrow> string \<Rightarrow> exn + scalar option list" where
  "get_column df col =
     (if col \<in> set (frame_columns df) then Inr (map (\<lambda>row. map_of row col) (frame_rows df))
      else Inl (KeyError col))"

definition set_column :: "dataframe \<Rightarrow> string \<Rightarrow> scalar list \<Rightarrow> dataframe" where
  "set_column df col vals = DataFrame (map (\<lambda>(row, v). AList.update col v row) (zip (frame_rows df) vals))"

definition select_columns :: "dataframe \<Rightarrow> string list \<Rightarrow> exn + dataframe" where
  "select_columns df cols =
     (case filter (\<lambda>c. c \<notin> set (frame_columns df)) cols of
        [] \<Rightarrow> Inr (DataFrame (map (\<lambda>row. List.map_filter (\<lambda>c. map_option (Pair c) (map_of row c)) cols)
                               (frame_rows df)))
      | c # _ \<Rightarrow> Inl (KeyError c))"

type_synonym cat_key = "bool \<times> int \<times> string"

definition category_key :: "scalar option \<Rightarrow> cat_key option" where
  "category_key cell =
     (case cell of
        None \<Rightarrow> None
      | Some JNull \<Rightarrow> None
      | Some (JBool b) \<Rightarrow> Some (False, (if b then 1 else 0), [])
      | Some (JNum n) \<Rightarrow> Some (False, n, [])
      | Some (JStr s) \<Rightarrow> Some (True, 0, s))"

definition categories :: "scalar option list \<Rightarrow> cat_key list" where
  "categories col = sort (remdups (List.map_filter category_key col))"

definition index_of :: "'a \<Rightarrow> 'a list \<Rightarrow> nat" where
  "index_of x xs = length (takeWhile (\<lambda>y. y \<noteq> x) xs)"

definition cat_codes :: "scalar option list \<Rightarrow> int list" where
  "cat_codes col =
     map (\<lambda>cell. case category_key cell of None \<Rightarrow> - 1 | Some k \<Rightarrow> int (index_of k (categories col))) col"

section \<open>The gateway\<close>

text \<open>
  A call of a gateway operation either returns a value or leaves the operation as an
  exception: \<open>Returns\<close> and \<open>Raises\<close>.

  \<open>upload_csv_to_redis\<close> (lines 60 to 79 of \<open>RedisDB.py\<close>): \<open>flushall\<close> is store call 0
  and stands before the \<open>try\<close> block; inside the block the CSV file is read and record
  \<open>idx\<close> is written by store call \<open>idx + 1\<close> under the key \<open>record_idx\<close>. Any exception
  inside the block makes the operation return \<open>False\<close> with the store as the loop left it.

  \<open>redis_data_to_dataframe\<close> (lines 90 to 120): \<open>keys()\<close> is called twice (calls 0 and 1),
  then each key is fetched and decoded; the three \<open>except\<close> clauses all return \<open>None\<close>.

  \<open>heatmap_using_recent_data\<close> (lines 134 to 170): the keys are sorted in descending order
  and cut to the first 50000 (\<open>recent_keys\<close>, \<open>scan_recent\<close>, which take the limit as an
  argument), fetched and decoded by the same loop as in the full scan, the six categorical
  columns are encoded and selected, and the heatmap is drawn from their correlation
  matrix. The correlation is floating-point work of the plotting libraries: the heatmap is
  represented by the encoded frame it is drawn from.
\<close>

datatype 'a outcome = Returns 'a | Raises exn

fun upload_records :: "fault \<Rightarrow> nat \<Rightarrow> pyrecord list \<Rightarrow> store \<Rightarrow> exn option \<times> store" where
  "upload_records fault idx [] st = (None, st)"
| "upload_records fault idx (record # rest) st =
     (case redis_set fault (Suc idx) (record_key idx) (json_dumps record) st of
        Inl e \<Rightarrow> (Some e, st)
      | Inr st' \<Rightarrow> upload_records fault (Suc idx) rest st')"

definition upload_csv_to_redis :: "fault \<Rightarrow> csv_source \<Rightarrow> store \<Rightarrow> bool outcome \<times> store" where
  "upload_csv_to_redis fault csv_path st =
     (case redis_flushall fault 0 st of
        Inl e \<Rightarrow> (Raises e, st)
      | Inr st0 \<Rightarrow>
          (case read_csv_records csv_path of
             Inl e \<Rightarrow> (Returns False, st0)
           | Inr data \<Rightarrow>
               (case upload_records fault 0 data st0 of
                  (Some e, st1) \<Rightarrow> (Returns False, st1)
                | (None, st1) \<Rightarrow> (Returns True, st1))))"

fun fetch_records :: "fault \<Rightarrow> nat \<Rightarrow> string list \<Rightarrow> store \<Rightarrow> exn + pyrecord list" where
  "fetch_records fault i [] st = Inr []"
| "fetch_records fault i (key # keys) st =
     (case redis_get fault i key st of
        Inl e \<Rightarrow> Inl e
      | Inr None \<Rightarrow> fetch_records fault (Suc i) keys st
      | Inr (Some redis_data) \<Rightarrow>
          (case utf8_decode redis_data of
             Inl e \<Rightarrow> Inl e
           | Inr redis_data_str \<Rightarrow>
               (case json_loads redis_data_str of
                  Inl e \<Rightarrow> Inl e
                | Inr data_dict \<Rightarrow>
                    (case fetch_records fault (Suc i) keys st of
                       Inl e \<Rightarrow> Inl e
                     | Inr data \<Rightarrow> Inr (data_dict # data)))))"

definition scan_all :: "key_order \<Rightarrow> fault \<Rightarrow> store \<Rightarrow> exn + dataframe" where
  "scan_all ord fault st =
     (case redis_keys ord fault 0 st of
        Inl e \<Rightarrow> Inl e
      | Inr counted \<Rightarrow>
          (case redis_keys ord fault 1 st of
             Inl e \<Rightarrow> Inl e
           | Inr keys \<Rightarrow>
               (case fetch_records fault 2 keys st of
                  Inl e \<Rightarrow> Inl e
                | Inr data \<Rightarrow> if data \<noteq> [] then Inr (DataFrame data) else Inr (DataFrame []))))"

definition redis_data_to_dataframe :: "key_order \<Rightarrow> fault \<Rightarrow> store \<Rightarrow> dataframe option outcome" where
  "redis_data_to_dataframe ord fault st =
     (case scan_all ord fault st of
        Inr df \<Rightarrow> Returns (Some df)
      | Inl RedisError \<Rightarrow> Returns None
      | Inl JSONDecodeError \<Rightarrow> Returns None
      | Inl _ \<Rightarrow> Returns None)"

definition recent_keys :: "nat \<Rightarrow> string list \<Rightarrow> string list" where
  "recent_keys limit keys = take limit (rev (sort keys))"

definition scan_recent :: "nat \<Rightarrow> key_order \<Rightarrow> fault \<Rightarrow> store \<Rightarrow> exn + pyrecord list" where
  "scan_recent limit ord fault st =
     (case redis_keys ord fault 0 st of
        Inl e \<Rightarrow> Inl e
      | Inr all_keys \<Rightarrow> fetch_records fault 1 (recent_keys limit all_keys) st)"

definition categorical_cols :: "string list" where
  "categorical_cols = [''Sex'', ''Stroke'', ''AgeCategory'', ''Diabetic'', ''Smoking'', ''HeartDisease'']"

fun encode_categorical :: "string list \<Rightarrow> dataframe \<Rightarrow> exn + dataframe" where
  "encode_categorical [] df = Inr df"
| "encode_categorical (col # cols) df =
     (case get_column df col of
        Inl e \<Rightarrow> Inl e
      | Inr vals \<Rightarrow> encode_categorical cols (set_column df col (map JNum (cat_codes vals))))"

datatype heatmap = Heatmap dataframe

definition recent_heatmap :: "key_order \<Rightarrow> fault \<Rightarrow> store \<Rightarrow> exn + heatmap" where
  "recent_heatmap ord fault st =
     (case scan_recent 50000 ord fault st of
        Inl e \<Rightarrow> Inl e
      | Inr recent_data \<Rightarrow>
          (case encode_categorical categorical_cols (DataFrame recent_data) of
             Inl e \<Rightarrow> Inl e
           | Inr df_recent \<Rightarrow>
               (case select_columns df_recent categorical_cols of
                  Inl e \<Rightarrow> Inl e
                | Inr df_heatmap \<Rightarrow> Inr (Heatmap df_heatmap))))"

definition heatmap_using_recent_data :: "key_order \<Rightarrow> fault \<Rightarrow> store \<Rightarrow> heatmap option outcome" where
  "heatmap_using_recent_data ord fault st =
     (case recent_heatmap ord fault st of
        Inr heatmap \<Rightarrow> Returns (Some heatmap)
      | Inl e \<Rightarrow> Returns None)"

section \<open>Properties of the load and of the scans\<close>































lemma enumerates_mset: "enumerates ord \<Longrightarrow> mset (ord ks) = mset ks"
  by (simp add: enumerates_def)






lemma fetch_records_empty_store: "fetch_records None i ks [] = Inr []"
  by (induction ks arbitrary: i) (simp_all add: redis_get_def)


lemma sort_enumerated: "enumerates ord \<Longrightarrow> sort (ord ks) = sort ks"
  by (rule properties_for_sort) (simp_all add: enumerates_mset)

lemma newest_of_eleven: "take 1 (rev (sort (map record_key [0..<11]))) = [''record_9'']"
  by code_simp
























section \<open>The claims\<close>





text \<open>
  Claim C2. The load does not keep every failure inside: \<open>flushall\<close> is called before the
  \<open>try\<close> block, so a store failure at that call leaves \<open>upload_csv_to_redis\<close> as an
  exception and no \<open>False\<close> is returned. The two scans, faced with the same failure at
  their first store call, return \<open>None\<close>.
\<close>

theorem upload_raises_when_flush_fails:
  "upload_csv_to_redis (Some 0) (Parsed [[(''Sex'', JStr ''Male'')]]) [(''record_0'', ''{}'')]
     = (Raises RedisError, [(''record_0'', ''{}'')])
   \<and> redis_data_to_dataframe ord (Some 0) [(''record_0'', ''{}'')] = Returns None
   \<and> heatmap_using_recent_data ord (Some 0) [(''record_0'', ''{}'')] = Returns None"
  by (simp add: upload_csv_to_redis_def redis_flushall_def redis_data_to_dataframe_def scan_all_def
      heatmap_using_recent_data_def recent_heatmap_def scan_recent_def redis_keys_def)

text \<open>
  Claim C3. The recent scan lists all keys, sorts them in descending lexicographic order and
  fetches the first \<open>limit\<close> of them, whatever order the store lists its keys in. With the
  eleven keys \<open>record_0\<close> to \<open>record_10\<close> stored and limit 1 the selected key is
  \<open>record_9\<close>, not \<open>record_10\<close>.
\<close>

theorem recent_key_selection:
  assumes "enumerates ord"
  shows "scan_recent limit ord None st
           = fetch_records None 1 (take limit (rev (sort (map fst st)))) st
       \<and> length (recent_keys limit (ord (map fst st))) \<le> limit
       \<and> sorted_wrt (\<lambda>a b. b \<le> a) (recent_keys limit (ord (map fst st)))
       \<and> set (recent_keys limit (ord (map fst st))) \<subseteq> fst ` set st
       \<and> (mset (map fst st) = mset (map record_key [0..<11])
            \<longrightarrow> recent_keys 1 (ord (map fst st)) = [''record_9''])"
proof -
  have rk: "recent_keys n (ord (map fst st)) = take n (rev (sort (map fst st)))" for n
    by (simp add: recent_keys_def sort_enumerated [OF assms])
  have "sorted_wrt (\<lambda>a b. b \<le> a) (rev (sort (map fst st)))"
    by (simp add: sorted_wrt_rev)
  then have desc: "sorted_wrt (\<lambda>a b. b \<le> a) (take limit (rev (sort (map fst st))))"
    by (rule sorted_wrt_take)
  have sub: "set (take limit (rev (sort (map fst st)))) \<subseteq> fst ` set st"
    using set_take_subset [of limit "rev (sort (map fst st))"] by simp
  have eleven: "take 1 (rev (sort (map fst st))) = [''record_9'']"
    if "mset (map fst st) = mset (map record_key [0..<11])"
  proof -
    have "mset (sort (map record_key [0..<11])) = mset (map fst st)"
      by (simp only: mset_sort that)
    then have "sort (map fst st) = sort (map record_key [0..<11])"
      by (rule properties_for_sort) simp
    then show ?thesis by (simp only: newest_of_eleven)
  qed
  show ?thesis
    unfolding rk using desc sub eleven
    by (simp add: scan_recent_def redis_keys_def rk)
qed

theorem recent_key_selection_witness:
  "mset (map fst (map (\<lambda>i. (record_key i, ''{}'')) [0..<11])) = mset (map record_key [0..<11])
   \<and> recent_keys 1 (rev (map fst (map (\<lambda>i. (record_key i, ''{}'')) [0..<11]))) = [''record_9'']
   \<and> length (recent_keys 1 (rev (map fst (map (\<lambda>i. (record_key i, ''{}'')) [0..<11])))) \<le> 1"
proof -
  have e: "enumerates rev" by (simp add: enumerates_def)
  have m: "mset (map fst (map (\<lambda>i. (record_key i, ''{}'')) [0..<11])) = mset (map record_key [0..<11])"
    by (simp add: comp_def)
  from recent_key_selection [OF e, of 1 "map (\<lambda>i. (record_key i, ''{}'')) [0..<11]"] m
  show ?thesis by blast
qed



text \<open>
  Claim C7. A scan of an empty store, when the store answers, returns the empty frame
  \<open>pd.DataFrame()\<close> and not the failure value \<open>None\<close>, whatever the store would list.
\<close>

theorem scan_empty_store:
  "redis_data_to_dataframe ord None [] = Returns (Some (DataFrame []))"
  by (simp add: redis_data_to_dataframe_def scan_all_def redis_keys_def fetch_records_empty_store)




text \<open>
  Claim C9. Loading is idempotent: running the load a second time on the same CSV file, the
  store behaving as in the first run (in particular when it answers every call), gives
  the same result and leaves the same store as running it once.
\<close>

theorem upload_idempotent:
  "upload_csv_to_redis fault csv (snd (upload_csv_to_redis fault csv st))
     = upload_csv_to_redis fault csv st"
  by (cases "fault = Some 0") (simp_all add: upload_csv_to_redis_def redis_flushall_def)

text \<open>
  Claim C10. The store is emptied before the CSV file is read: once \<open>flushall\<close> has gone
  through, a CSV file that cannot be read or parsed makes the load return \<open>False\<close> and
  leaves the store with no key at all, whatever it held before.
\<close>

theorem upload_unreadable_csv:
  assumes "fault \<noteq> Some 0"
  shows "upload_csv_to_redis fault Unreadable st = (Returns False, [])"
  using assms by (simp add: upload_csv_to_redis_def redis_flushall_def read_csv_records_def)

theorem upload_unreadable_csv_witness:
  "(None :: nat option) \<noteq> Some 0 \<and>
   upload_csv_to_redis None Unreadable [(''record_0'', ''{}''), (''session'', ''abc'')] = (Returns False, [])"
  using upload_unreadable_csv [of None "[(''record_0'', ''{}''), (''session'', ''abc'')]"] by simp



end
